theory Spec2Isabelle
  imports Complex_Main "HOL-Library.Word"
begin

unbundle bit_operations_syntax

section \<open>Device side: the Animation Director of bongo\_cat.ino\<close>

text \<open>
  The firmware keeps one global \<open>sprite_manager_t\<close>.  Sprite pointers are modelled by the
  name of the sprite they point to, a null pointer by \<open>None\<close>; the five-slot array
  \<open>current_sprites[NUM_LAYERS]\<close> is a function from the layer enum.  The fixed-width
  fields keep their widths, since the timers are compared after wrapping subtraction.
  Output on the serial console is not part of the model.
\<close>

datatype sprite =
    standardbody1 | bodyeartwitch
  | stock_face | happy_face | blink_face | sleepy_face
  | leftpawdown | rightpawdown | twopawsup
  | table1
  | left_click_effect | right_click_effect | sleepy1 | sleepy2 | sleepy3

datatype sprite_layer_t = LAYER_BODY | LAYER_FACE | LAYER_TABLE | LAYER_PAWS | LAYER_EFFECTS

datatype animation_state_t =
    ANIM_STATE_IDLE_STAGE1
  | ANIM_STATE_IDLE_STAGE2
  | ANIM_STATE_IDLE_STAGE3
  | ANIM_STATE_IDLE_STAGE4
  | ANIM_STATE_TYPING_SLOW
  | ANIM_STATE_TYPING_NORMAL
  | ANIM_STATE_TYPING_FAST
  | ANIM_STATE_TYPING_STREAK
  | ANIM_STATE_BLINKING
  | ANIM_STATE_EAR_TWITCH

record sprite_manager_t =
  current_sprites :: "sprite_layer_t \<Rightarrow> sprite option"
  current_state :: animation_state_t
  state_start_time :: "32 word"
  blink_timer :: "32 word"
  ear_twitch_timer :: "32 word"
  effect_timer :: "32 word"
  effect_frame :: "8 word"
  paw_animation_active :: bool
  paw_frame :: "8 word"
  paw_timer :: "32 word"
  animation_speed_ms :: "16 word"
  click_effect_left :: bool
  idle_progression_enabled :: bool
  last_typing_time :: "32 word"
  is_streak_mode :: bool
  blink_start_time :: "32 word"
  blinking :: bool
  ear_twitch_start_time :: "32 word"
  ear_twitching :: bool

definition set_sprite ::
  "sprite_layer_t \<Rightarrow> sprite option \<Rightarrow> sprite_manager_t \<Rightarrow> sprite_manager_t" where
  "set_sprite l v m = m\<lparr>current_sprites := (current_sprites m)(l := v)\<rparr>"

text \<open>The test \<open>new_state == SLOW || new_state == NORMAL || new_state == FAST\<close> that
  \<open>sprite_manager_set_state\<close> makes twice; the legacy streak state is not in it.\<close>

definition records_typing :: "animation_state_t \<Rightarrow> bool" where
  "records_typing s \<longleftrightarrow>
     s = ANIM_STATE_TYPING_SLOW \<or> s = ANIM_STATE_TYPING_NORMAL \<or> s = ANIM_STATE_TYPING_FAST"

text \<open>The body of the \<open>switch (new_state)\<close>; the two states without a \<open>case\<close>
  (blinking, ear twitch) fall through it unchanged.\<close>

fun set_state_switch ::
  "animation_state_t \<Rightarrow> 32 word \<Rightarrow> sprite_manager_t \<Rightarrow> sprite_manager_t" where
  "set_state_switch ANIM_STATE_IDLE_STAGE1 t m =
     (set_sprite LAYER_FACE (Some stock_face)
       (set_sprite LAYER_EFFECTS None
         (set_sprite LAYER_PAWS (Some twopawsup) m)))\<lparr>paw_animation_active := False\<rparr>"
| "set_state_switch ANIM_STATE_IDLE_STAGE2 t m =
     (set_sprite LAYER_FACE (Some stock_face)
       (set_sprite LAYER_EFFECTS None
         (set_sprite LAYER_PAWS None m)))\<lparr>paw_animation_active := False\<rparr>"
| "set_state_switch ANIM_STATE_IDLE_STAGE3 t m =
     (set_sprite LAYER_FACE (Some sleepy_face)
       (set_sprite LAYER_EFFECTS None
         (set_sprite LAYER_PAWS None m)))\<lparr>paw_animation_active := False\<rparr>"
| "set_state_switch ANIM_STATE_IDLE_STAGE4 t m =
     (set_sprite LAYER_FACE (Some sleepy_face)
       (set_sprite LAYER_PAWS None m))\<lparr>paw_animation_active := False, effect_timer := t\<rparr>"
| "set_state_switch ANIM_STATE_TYPING_SLOW t m =
     (set_sprite LAYER_PAWS (Some leftpawdown)
       (set_sprite LAYER_EFFECTS None
         (set_sprite LAYER_FACE (Some (if is_streak_mode m then happy_face else stock_face)) m)))
       \<lparr>paw_animation_active := True, paw_frame := 0, paw_timer := t\<rparr>"
| "set_state_switch ANIM_STATE_TYPING_NORMAL t m =
     (set_sprite LAYER_PAWS (Some leftpawdown)
       (set_sprite LAYER_EFFECTS None
         (set_sprite LAYER_FACE (Some (if is_streak_mode m then happy_face else stock_face)) m)))
       \<lparr>paw_animation_active := True, paw_frame := 0, paw_timer := t\<rparr>"
| "set_state_switch ANIM_STATE_TYPING_FAST t m =
     (set_sprite LAYER_PAWS (Some leftpawdown)
       (set_sprite LAYER_FACE (Some (if is_streak_mode m then happy_face else stock_face)) m))
       \<lparr>paw_animation_active := True, paw_frame := 0, paw_timer := t\<rparr>"
| "set_state_switch ANIM_STATE_TYPING_STREAK t m =
     (set_sprite LAYER_PAWS (Some leftpawdown)
       (set_sprite LAYER_FACE (Some happy_face) m))
       \<lparr>paw_animation_active := True, paw_frame := 0, paw_timer := t\<rparr>"
| "set_state_switch ANIM_STATE_BLINKING t m = m"
| "set_state_switch ANIM_STATE_EAR_TWITCH t m = m"

definition sprite_manager_set_state ::
  "sprite_manager_t \<Rightarrow> animation_state_t \<Rightarrow> 32 word \<Rightarrow> sprite_manager_t" where
  "sprite_manager_set_state manager new_state current_time =
     (let m1 = manager\<lparr>current_state := new_state, state_start_time := current_time\<rparr>;
          m2 = (if records_typing new_state then m1\<lparr>last_typing_time := current_time\<rparr> else m1);
          m3 = set_sprite LAYER_TABLE (Some table1) (set_sprite LAYER_BODY (Some standardbody1) m2);
          m4 = set_state_switch new_state current_time m3
      in if records_typing new_state then m4\<lparr>idle_progression_enabled := False\<rparr> else m4)"

text \<open>The four states the director treats as typing intensities: slow, normal, fast and
  the legacy streak state.\<close>

definition typing_intensity :: "animation_state_t \<Rightarrow> bool" where
  "typing_intensity s \<longleftrightarrow> records_typing s \<or> s = ANIM_STATE_TYPING_STREAK"

text \<open>\<open>sprite_manager_init\<close>.  The three readings of \<open>millis()\<close> and the two results of
  \<open>random\<close> are inputs.\<close>

definition sprite_manager_init ::
  "32 word \<Rightarrow> 32 word \<Rightarrow> 32 word \<Rightarrow> 32 word \<Rightarrow> 32 word \<Rightarrow> sprite_manager_t" where
  "sprite_manager_init millis1 millis2 millis3 random_blink random_ear =
     \<lparr>current_sprites =
        (\<lambda>l. case l of
           LAYER_BODY \<Rightarrow> Some standardbody1
         | LAYER_FACE \<Rightarrow> Some stock_face
         | LAYER_TABLE \<Rightarrow> Some table1
         | LAYER_PAWS \<Rightarrow> Some twopawsup
         | LAYER_EFFECTS \<Rightarrow> None),
      current_state = ANIM_STATE_IDLE_STAGE1,
      state_start_time = millis1,
      blink_timer = millis2 + random_blink,
      ear_twitch_timer = millis3 + random_ear,
      effect_timer = 0,
      effect_frame = 0,
      paw_animation_active = False,
      paw_frame = 0,
      paw_timer = 0,
      animation_speed_ms = 200,
      click_effect_left = False,
      idle_progression_enabled = False,
      last_typing_time = 0,
      is_streak_mode = False,
      blink_start_time = 0,
      blinking = False,
      ear_twitch_start_time = 0,
      ear_twitching = False\<rparr>"

section \<open>Device side: the persisted settings record\<close>

text \<open>
  \<open>calculateChecksum\<close> reads the struct through a \<open>uint8_t\<close> pointer and \<open>EEPROM.get\<close> and
  \<open>EEPROM.put\<close> copy its bytes, so a \<open>BongoCatSettings\<close> value is modelled by its image
  in memory: 20 bytes on the ESP32 (little-endian, \<open>bool\<close> one byte, \<open>int\<close>, \<open>float\<close>
  and \<open>uint32_t\<close> four bytes aligned to four).  Bytes 0 to 4 are the five flags, 5 to 7
  padding, 8 to 11 \<open>sleep_timeout_minutes\<close>, 12 to 15 \<open>animation_sensitivity\<close>, 16 to 19
  \<open>checksum\<close>.
\<close>

type_synonym BongoCatSettings = "8 word list"

definition SETTINGS_SIZE :: nat where
  "SETTINGS_SIZE = 20"

definition le32_at :: "8 word list \<Rightarrow> nat \<Rightarrow> 32 word" where
  "le32_at img off =
     of_nat (unat (img ! off) + 256 * unat (img ! (off + 1))
             + 65536 * unat (img ! (off + 2)) + 16777216 * unat (img ! (off + 3)))"

definition le32_bytes :: "32 word \<Rightarrow> 8 word list" where
  "le32_bytes w =
     [of_nat (unat w mod 256), of_nat (unat w div 256 mod 256),
      of_nat (unat w div 65536 mod 256), of_nat (unat w div 16777216 mod 256)]"

definition put_le32 :: "nat \<Rightarrow> 32 word \<Rightarrow> 8 word list \<Rightarrow> 8 word list" where
  "put_le32 off w img =
     img[off := le32_bytes w ! 0, off + 1 := le32_bytes w ! 1,
         off + 2 := le32_bytes w ! 2, off + 3 := le32_bytes w ! 3]"

definition sleep_timeout_minutes :: "BongoCatSettings \<Rightarrow> int" where
  "sleep_timeout_minutes s = sint (le32_at s 8)"

definition animation_sensitivity_bits :: "BongoCatSettings \<Rightarrow> 32 word" where
  "animation_sensitivity_bits s = le32_at s 12"

definition checksum :: "BongoCatSettings \<Rightarrow> 32 word" where
  "checksum s = le32_at s 16"

text \<open>The value of an IEEE 754 single, for the two comparisons of \<open>validateSettings\<close>.
  The comparisons are made in double precision, where every single is exact.\<close>

datatype float_value = Finite rat | PosInf | NegInf | NaN

definition float_of_bits :: "32 word \<Rightarrow> float_value" where
  "float_of_bits w =
     (let e = unat (drop_bit 23 w) mod 256;
          m = unat w mod 8388608;
          mag = (if e = 0 then of_nat m / 2 ^ 149
                 else if 150 \<le> e then of_nat (8388608 + m) * 2 ^ (e - 150)
                 else of_nat (8388608 + m) / 2 ^ (150 - e))
      in if e = 255 then (if m \<noteq> 0 then NaN else if bit w 31 then NegInf else PosInf)
         else Finite (if bit w 31 then - mag else mag))"

fun float_less :: "float_value \<Rightarrow> rat \<Rightarrow> bool" where
  "float_less (Finite q) c \<longleftrightarrow> q < c"
| "float_less NegInf c \<longleftrightarrow> True"
| "float_less PosInf c \<longleftrightarrow> False"
| "float_less NaN c \<longleftrightarrow> False"

fun float_greater :: "float_value \<Rightarrow> rat \<Rightarrow> bool" where
  "float_greater (Finite q) c \<longleftrightarrow> c < q"
| "float_greater PosInf c \<longleftrightarrow> True"
| "float_greater NegInf c \<longleftrightarrow> False"
| "float_greater NaN c \<longleftrightarrow> False"

text \<open>The double-precision literal \<open>0.1\<close>.\<close>

definition double_0_1 :: rat where
  "double_0_1 = 3602879701896397 / 36028797018963968"

text \<open>\<open>calculateChecksum\<close>: the loop adds the first \<open>sizeof(BongoCatSettings) - 4\<close> bytes
  into a \<open>uint32_t\<close>.\<close>

definition calculateChecksum :: "BongoCatSettings \<Rightarrow> 32 word" where
  "calculateChecksum s = foldl (\<lambda>sum b. sum + ucast b) 0 (take (SETTINGS_SIZE - 4) s)"

definition validateSettings :: "BongoCatSettings \<Rightarrow> bool" where
  "validateSettings s =
     (if sleep_timeout_minutes s < 1 \<or> sleep_timeout_minutes s > 60 then False
      else if float_less (float_of_bits (animation_sensitivity_bits s)) double_0_1
            \<or> float_greater (float_of_bits (animation_sensitivity_bits s)) 5 then False
      else checksum s = calculateChecksum s)"

text \<open>The device state that the modelled functions touch:
  the global \<open>sprite_manager\<close> (field \<open>manager\<close>), the two host-control globals, the
  global \<open>settings\<close> and the contents of the EEPROM
  from \<open>SETTINGS_ADDRESS\<close> (which is 0) on; \<open>EEPROM.put\<close> followed by \<open>EEPROM.commit\<close> is
  one write of the first \<open>SETTINGS_SIZE\<close> bytes.\<close>

record device =
  manager :: sprite_manager_t
  python_control_mode :: bool
  last_command_time :: "32 word"
  settings :: BongoCatSettings
  eeprom :: "8 word list"

definition saveSettings :: "device \<Rightarrow> device" where
  "saveSettings d =
     (let s = put_le32 16 (calculateChecksum (settings d)) (settings d)
      in d\<lparr>settings := s, eeprom := take SETTINGS_SIZE s @ drop SETTINGS_SIZE (eeprom d)\<rparr>)"

text \<open>\<open>resetSettings\<close> assigns the seven fields and then the checksum; the padding bytes
  of the global keep what they held.  \<open>0x3F800000\<close> is the single \<open>1.0\<close>.\<close>

definition resetSettings :: "device \<Rightarrow> device" where
  "resetSettings d =
     (let s1 = (settings d)[0 := 1, 1 := 1, 2 := 1, 3 := 1, 4 := 1];
          s2 = put_le32 8 5 s1;
          s3 = put_le32 12 0x3F800000 s2
      in d\<lparr>settings := put_le32 16 (calculateChecksum s3) s3\<rparr>)"

definition loadSettings :: "device \<Rightarrow> device" where
  "loadSettings d =
     (let temp_settings = take SETTINGS_SIZE (eeprom d)
      in if validateSettings temp_settings then d\<lparr>settings := temp_settings\<rparr>
         else resetSettings d)"


text \<open>The global \<open>settings\<close> before \<open>setup\<close> runs: the default member initialisers in
  zeroed static storage.\<close>

definition initial_settings :: BongoCatSettings where
  "initial_settings = [1, 1, 1, 1, 1, 0, 0, 0, 5, 0, 0, 0, 0, 0, 0x80, 0x3F, 0, 0, 0, 0]"

section \<open>Device side: adaptive sleep-stage timing\<close>

text \<open>
  \<open>calculateSleepStageTiming\<close>.  \<open>unsigned long\<close> is 32 bits on the ESP32.  The products
  \<open>total_ms * 0.25\<close> and so on are computed in double precision and truncated by the
  cast; the model takes the exact product, which is what the doubles give for every
  whole number of minutes from 1 to 60 (the products are then whole numbers below
  \<open>2^53\<close>, and the rounded product of each is that whole number).
\<close>

definition scaled :: "32 word \<Rightarrow> nat \<Rightarrow> 32 word" where
  "scaled total_ms percent = of_nat (unat total_ms * percent div 100)"

definition calculateSleepStageTiming :: "int \<Rightarrow> 32 word \<times> 32 word \<times> 32 word" where
  "calculateSleepStageTiming timeout_minutes =
     (let total_ms = (word_of_int timeout_minutes :: 32 word) * 60 * 1000;
          min_stage2 = 5000; max_stage2 = 60000;
          min_stage3 = 3000; max_stage3 = 30000;
          (stage2_ms, stage3_ms) =
            (if timeout_minutes \<le> 3 then
               (max min_stage2 (min max_stage2 (scaled total_ms 25)),
                max min_stage3 (min max_stage3 (scaled total_ms 15)))
             else if timeout_minutes \<le> 10 then
               (max min_stage2 (min max_stage2 (scaled total_ms 20)),
                max min_stage3 (min max_stage3 (scaled total_ms 10)))
             else
               (max min_stage2 (min max_stage2 (scaled total_ms 15)),
                max min_stage3 (min max_stage3 (scaled total_ms 5))))
      in (total_ms - stage2_ms - stage3_ms, stage2_ms, stage3_ms))"

section \<open>Device side: the tick of the Animation Director\<close>













definition on_manager :: "(sprite_manager_t \<Rightarrow> sprite_manager_t) \<Rightarrow> device \<Rightarrow> device" where
  "on_manager f d = d\<lparr>manager := f (manager d)\<rparr>"


section \<open>Device side: the command handler\<close>

text \<open>
  \<open>handleSerialCommands\<close> for one line that \<open>Serial.readStringUntil\<close> has delivered;
  \<open>command\<close> is the line after \<open>trim()\<close>.  \<open>String::toInt\<close> is \<open>atol\<close>: leading white
  space, an optional sign, then decimal digits up to the first other character, saturating
  at the bounds of a 32-bit \<open>long\<close> as the C library of the ESP32 does.
  \<open>String::toFloat\<close> is an input, \<open>toFloat\<close>, giving the bits of the parsed single.
  The branches that only write display variables (\<open>STATS\<close>, \<open>TIME\<close>, \<open>CPU\<close>, \<open>RAM\<close>,
  \<open>WPM\<close>, \<open>PING\<close>) leave the modelled state as the prologue of the function set it.
\<close>

definition startsWith :: "string \<Rightarrow> string \<Rightarrow> bool" where
  "startsWith s p \<longleftrightarrow> take (length p) s = p"

definition isspace :: "char \<Rightarrow> bool" where
  "isspace c \<longleftrightarrow> c = CHR '' '' \<or> (9 \<le> (of_char c :: nat) \<and> (of_char c :: nat) \<le> 13)"

definition isdigit :: "char \<Rightarrow> bool" where
  "isdigit c \<longleftrightarrow> 48 \<le> (of_char c :: nat) \<and> (of_char c :: nat) \<le> 57"

definition digits_value :: "string \<Rightarrow> nat" where
  "digits_value ds = foldl (\<lambda>acc c. 10 * acc + ((of_char c :: nat) - 48)) 0 ds"

definition toInt :: "string \<Rightarrow> int" where
  "toInt s =
     (let s1 = dropWhile isspace s;
          neg = (s1 \<noteq> [] \<and> hd s1 = CHR ''-'');
          s2 = (if s1 \<noteq> [] \<and> (hd s1 = CHR ''-'' \<or> hd s1 = CHR ''+'') then tl s1 else s1);
          n = int (digits_value (takeWhile isdigit s2));
          v = (if neg then - n else n)
      in max (- 2147483648) (min 2147483647 v))"

fun float_ge :: "float_value \<Rightarrow> rat \<Rightarrow> bool" where
  "float_ge (Finite q) c \<longleftrightarrow> c \<le> q"
| "float_ge PosInf c \<longleftrightarrow> True"
| "float_ge NegInf c \<longleftrightarrow> False"
| "float_ge NaN c \<longleftrightarrow> False"

fun float_le :: "float_value \<Rightarrow> rat \<Rightarrow> bool" where
  "float_le (Finite q) c \<longleftrightarrow> q \<le> c"
| "float_le NegInf c \<longleftrightarrow> True"
| "float_le PosInf c \<longleftrightarrow> False"
| "float_le NaN c \<longleftrightarrow> False"

definition set_flag :: "nat \<Rightarrow> bool \<Rightarrow> device \<Rightarrow> device" where
  "set_flag off v d = d\<lparr>settings := (settings d)[off := (if v then 1 else 0)]\<rparr>"

text \<open>The \<open>SPEED:\<close> branch.  \<open>new_state\<close> is read from the manager before the
  \<open>speed == 0\<close> test, and the second \<open>sprite_manager_set_state\<close> runs in every case.\<close>

definition handle_speed :: "string \<Rightarrow> 32 word \<Rightarrow> device \<Rightarrow> device" where
  "handle_speed speed_str current_time d =
     (let speed = (word_of_int (toInt speed_str) :: 16 word);
          m0 = manager d;
          new_state0 = current_state m0;
          m1 = (if speed = 0
                then sprite_manager_set_state m0 ANIM_STATE_IDLE_STAGE1 current_time else m0);
          new_state = (if speed = 0 then new_state0
                       else if speed < 80 then ANIM_STATE_TYPING_SLOW
                       else if speed < 150 then ANIM_STATE_TYPING_NORMAL
                       else ANIM_STATE_TYPING_FAST);
          m2 = sprite_manager_set_state m1 new_state current_time;
          old_speed = animation_speed_ms m2;
          m3 = m2\<lparr>animation_speed_ms := speed\<rparr>;
          m4 = (if paw_animation_active m3 \<and> \<bar>uint speed - uint old_speed\<bar> > 50
                then m3\<lparr>paw_timer := current_time\<rparr> else m3)
      in d\<lparr>last_command_time := current_time, python_control_mode := True,
            manager := m4\<lparr>idle_progression_enabled := False\<rparr>\<rparr>)"

definition handle_anim :: "string \<Rightarrow> 32 word \<Rightarrow> device \<Rightarrow> device" where
  "handle_anim anim current_time d =
     (if anim = ''IDLE_1''
      then on_manager (\<lambda>m. sprite_manager_set_state m ANIM_STATE_IDLE_STAGE1 current_time) d
      else if anim = ''IDLE_2''
      then on_manager (\<lambda>m. sprite_manager_set_state m ANIM_STATE_IDLE_STAGE2 current_time) d
      else if anim = ''IDLE_3''
      then on_manager (\<lambda>m. sprite_manager_set_state m ANIM_STATE_IDLE_STAGE3 current_time) d
      else if anim = ''IDLE_4''
      then on_manager (\<lambda>m. sprite_manager_set_state m ANIM_STATE_IDLE_STAGE4 current_time) d
      else if anim = ''BLINK''
      then on_manager (\<lambda>m. sprite_manager_set_state m ANIM_STATE_BLINKING current_time) d
      else if anim = ''EAR_TWITCH''
      then on_manager (\<lambda>m. sprite_manager_set_state m ANIM_STATE_EAR_TWITCH current_time) d
      else d)"

definition handleSerialCommands ::
  "(string \<Rightarrow> 32 word) \<Rightarrow> string \<Rightarrow> 32 word \<Rightarrow> device \<Rightarrow> device" where
  "handleSerialCommands toFloat command current_time d0 =
     (let d = d0\<lparr>last_command_time := current_time, python_control_mode := True\<rparr> in
      if startsWith command ''SPEED:'' then handle_speed (drop 6 command) current_time d
      else if command = ''STOP'' then
        (on_manager (\<lambda>m. (sprite_manager_set_state m ANIM_STATE_IDLE_STAGE1 current_time)
                           \<lparr>idle_progression_enabled := False\<rparr>) d)
          \<lparr>python_control_mode := True, last_command_time := current_time\<rparr>
      else if command = ''IDLE_START'' then
        (on_manager (\<lambda>m. (sprite_manager_set_state m ANIM_STATE_IDLE_STAGE1 current_time)
                           \<lparr>idle_progression_enabled := True\<rparr>) d)
          \<lparr>python_control_mode := False\<rparr>
      else if command = ''IDLE'' then
        on_manager (\<lambda>m. sprite_manager_set_state m ANIM_STATE_IDLE_STAGE1 current_time) d
      else if command = ''HEARTBEAT'' then
        d\<lparr>last_command_time := current_time, python_control_mode := True\<rparr>
      else if command = ''STREAK_ON'' then on_manager (\<lambda>m. m\<lparr>is_streak_mode := True\<rparr>) d
      else if command = ''STREAK_OFF'' then on_manager (\<lambda>m. m\<lparr>is_streak_mode := False\<rparr>) d
      else if startsWith command ''STATS:'' then d
      else if startsWith command ''TIME:'' then d
      else if startsWith command ''CPU:'' then d
      else if startsWith command ''RAM:'' then d
      else if startsWith command ''WPM:'' then d
      else if command = ''PING'' then d
      else if startsWith command ''ANIM:'' then handle_anim (drop 5 command) current_time d
      else if startsWith command ''DISPLAY_CPU:'' then set_flag 0 (drop 12 command = ''ON'') d
      else if startsWith command ''DISPLAY_RAM:'' then set_flag 1 (drop 12 command = ''ON'') d
      else if startsWith command ''DISPLAY_WPM:'' then set_flag 2 (drop 12 command = ''ON'') d
      else if startsWith command ''DISPLAY_TIME:'' then set_flag 3 (drop 13 command = ''ON'') d
      else if startsWith command ''TIME_FORMAT:'' then set_flag 4 (drop 12 command = ''24'') d
      else if startsWith command ''SLEEP_TIMEOUT:'' then
        (let timeout = toInt (drop 14 command) in
         if timeout \<ge> 1 \<and> timeout \<le> 60
         then d\<lparr>settings := put_le32 8 (word_of_int timeout) (settings d)\<rparr> else d)
      else if startsWith command ''SENSITIVITY:'' then
        (let sensitivity = toFloat (drop 12 command) in
         if float_ge (float_of_bits sensitivity) double_0_1
            \<and> float_le (float_of_bits sensitivity) 5
         then d\<lparr>settings := put_le32 12 sensitivity (settings d)\<rparr> else d)
      else if command = ''SAVE_SETTINGS'' then saveSettings d
      else if command = ''LOAD_SETTINGS'' then loadSettings d
      else if command = ''RESET_SETTINGS'' then saveSettings (resetSettings d)
      else d)"

section \<open>Host side: the keyboard monitor of keyboard-monitor.js\<close>

text \<open>
  The state of a \<open>KeyboardMonitor\<close> that the typing path touches.  Timestamps are the whole
  milliseconds of \<open>Date.now()\<close>; every reading of the clock is an input of the function
  that makes it.  JavaScript numbers are modelled by exact rationals: the rounding of
  double-precision arithmetic is not part of the model.  \<open>null\<close> and \<open>undefined\<close> are
  \<open>None\<close>.  The events passed to \<open>eventEmitter.emit('typing-stats', _)\<close> are collected in
  \<open>emitted\<close>.
\<close>

record keystroke =
  timestamp :: int
  key :: string

record typing_stats =
  wpm :: rat
  totalKeystrokes :: nat
  sessionDuration :: int
  lastKeystroke :: int
  isActive :: bool

record KeyboardMonitor =
  keystrokes :: "keystroke list"
  startTime :: "int option"
  session_totalKeystrokes :: nat
  currentWPM :: rat
  lastKeystrokeTime :: int
  typingActive :: bool
  previousWPM :: "rat option"
  emitted :: "typing_stats list"

definition maxKeystrokeAge :: int where
  "maxKeystrokeAge = 60000"

definition idleTimeout :: int where
  "idleTimeout = 1000"

text \<open>\<open>Math.round\<close>: the nearest integer, halves upwards.\<close>

definition Math_round :: "rat \<Rightarrow> rat" where
  "Math_round x = of_int \<lfloor>x + 1 / 2\<rfloor>"

definition cleanOldKeystrokes :: "int \<Rightarrow> KeyboardMonitor \<Rightarrow> KeyboardMonitor" where
  "cleanOldKeystrokes currentTime st =
     (let cutoffTime = currentTime - maxKeystrokeAge
      in st\<lparr>keystrokes := filter (\<lambda>k. timestamp k > cutoffTime) (keystrokes st)\<rparr>)"

text \<open>\<open>xs.slice(-8)\<close>: the last eight elements, or all of them when there are fewer.\<close>

definition slice_last :: "nat \<Rightarrow> 'a list \<Rightarrow> 'a list" where
  "slice_last n xs = drop (length xs - n) xs"

text \<open>The local \<open>rawWPM\<close> of \<open>calculateWPM\<close>, from \<open>recentKeystrokes\<close> and
  \<open>currentTime\<close>.\<close>

definition rawWPM :: "int \<Rightarrow> keystroke list \<Rightarrow> rat" where
  "rawWPM currentTime recentKeystrokes =
     (let oldestTime = timestamp (hd recentKeystrokes);
          timeSpanMs = currentTime - oldestTime;
          timeSpanSeconds = of_int timeSpanMs / 1000;
          keystrokeCount = of_nat (length recentKeystrokes);
          charsPerWord = 5;
          timeInMinutes = timeSpanSeconds / 60
      in (keystrokeCount / charsPerWord) / timeInMinutes)"

text \<open>The local \<open>smoothedWPM\<close>; \<open>previous\<close> is \<open>this.previousWPM\<close> after the
  \<open>if (!this.previousWPM) this.previousWPM = 0\<close> that precedes it.\<close>

definition smoothedWPM :: "rat \<Rightarrow> rat \<Rightarrow> rat" where
  "smoothedWPM previous raw =
     (if previous > 0 then previous * (6 / 10) + raw * (4 / 10) else raw)"

definition calculateWPM :: "int \<Rightarrow> KeyboardMonitor \<Rightarrow> rat \<times> KeyboardMonitor" where
  "calculateWPM currentTime st0 =
     (let st = cleanOldKeystrokes currentTime st0 in
      if length (keystrokes st) < 2 then (0, st)
      else
        (let recentKeystrokes = slice_last 8 (keystrokes st) in
         if length recentKeystrokes < 2 then (0, st)
         else if of_int (currentTime - timestamp (hd recentKeystrokes)) / 1000 < (4 / 10 :: rat)
         then (0, st)
         else
           (let raw = rawWPM currentTime recentKeystrokes;
                previous = (case previousWPM st of None \<Rightarrow> 0 | Some p \<Rightarrow> p);
                smoothed = smoothedWPM previous raw
            in (min (Math_round (smoothed * 10) / 10) 200,
                st\<lparr>previousWPM := Some smoothed\<rparr>))))"

definition calculateAndEmitWPM :: "int \<Rightarrow> KeyboardMonitor \<Rightarrow> KeyboardMonitor" where
  "calculateAndEmitWPM now st0 =
     (let (w, st) = (if typingActive st0 then calculateWPM now st0 else (0, st0));
          st1 = st\<lparr>currentWPM := w\<rparr>;
          statsData =
            \<lparr>wpm = w,
             totalKeystrokes = session_totalKeystrokes st1,
             sessionDuration =
               (case startTime st1 of
                  None \<Rightarrow> 0
                | Some t0 \<Rightarrow> if t0 = 0 then 0 else \<lfloor>Math_round (of_int (now - t0) / 1000)\<rfloor>),
             lastKeystroke = lastKeystrokeTime st1,
             isActive = typingActive st1\<rparr>
      in st1\<lparr>emitted := emitted st1 @ [statsData]\<rparr>)"

text \<open>\<open>checkIdleTimeout\<close>; \<open>now\<close> is its own reading of the clock, \<open>now'\<close> the one
  that \<open>calculateAndEmitWPM\<close> makes when it is called.\<close>

definition checkIdleTimeout :: "int \<Rightarrow> int \<Rightarrow> KeyboardMonitor \<Rightarrow> KeyboardMonitor" where
  "checkIdleTimeout now now' st =
     (let timeSinceLastKey = now - lastKeystrokeTime st in
      if typingActive st \<and> timeSinceLastKey > idleTimeout
      then calculateAndEmitWPM now' (st\<lparr>typingActive := False, currentWPM := 0\<rparr>)
      else st)"

text \<open>A call of \<open>calculateWPM\<close> passes its guards when at least two events are younger
  than 60 s and the oldest of the events it uses is at least 0.4 s old.\<close>

definition passes_guards :: "int \<Rightarrow> KeyboardMonitor \<Rightarrow> bool" where
  "passes_guards currentTime st \<longleftrightarrow>
     2 \<le> length (keystrokes (cleanOldKeystrokes currentTime st))
     \<and> 400 \<le> currentTime
           - timestamp (hd (slice_last 8 (keystrokes (cleanOldKeystrokes currentTime st))))"


subsection \<open>The typing-key filter\<close>

text \<open>\<open>String.prototype.includes\<close>.\<close>

fun str_includes :: "string \<Rightarrow> string \<Rightarrow> bool" where
  "str_includes [] p \<longleftrightarrow> p = []"
| "str_includes (c # cs) p \<longleftrightarrow> take (length p) (c # cs) = p \<or> str_includes cs p"

definition isModifierKey :: "string \<Rightarrow> bool" where
  "isModifierKey k \<longleftrightarrow> k \<in> set
     [''LEFT CTRL'', ''RIGHT CTRL'', ''LEFT ALT'', ''RIGHT ALT'',
      ''LEFT SHIFT'', ''RIGHT SHIFT'', ''LEFT META'', ''RIGHT META'',
      ''CTRL'', ''ALT'', ''SHIFT'', ''META'', ''CMD'', ''COMMAND'']"

definition modifierKeys :: "string list" where
  "modifierKeys =
     [''LEFT CTRL'', ''RIGHT CTRL'', ''LEFT ALT'', ''RIGHT ALT'',
      ''LEFT SHIFT'', ''RIGHT SHIFT'', ''LEFT META'', ''RIGHT META'',
      ''CAPS LOCK'', ''TAB'', ''ESC'', ''INSERT'', ''DELETE'',
      ''HOME'', ''END'', ''PAGE UP'', ''PAGE DOWN'',
      ''CTRL'', ''ALT'', ''SHIFT'', ''META'', ''CMD'', ''COMMAND'']"

definition functionKeys :: "string list" where
  "functionKeys =
     [''F1'', ''F2'', ''F3'', ''F4'', ''F5'', ''F6'',
      ''F7'', ''F8'', ''F9'', ''F10'', ''F11'', ''F12'']"

definition arrowKeys :: "string list" where
  "arrowKeys = [''UP'', ''DOWN'', ''LEFT'', ''RIGHT'']"

definition mouseKeys :: "string list" where
  "mouseKeys =
     [''MOUSE LEFT'', ''MOUSE RIGHT'', ''MOUSE MIDDLE'',
      ''MOUSE 4'', ''MOUSE 5'', ''MOUSE WHEEL UP'', ''MOUSE WHEEL DOWN'',
      ''LEFT MOUSE'', ''RIGHT MOUSE'', ''MIDDLE MOUSE'',
      ''MOUSE_LEFT'', ''MOUSE_RIGHT'', ''MOUSE_MIDDLE'',
      ''LEFT BUTTON'', ''RIGHT BUTTON'', ''MIDDLE BUTTON'',
      ''BUTTON 1'', ''BUTTON 2'', ''BUTTON 3'', ''BUTTON 4'', ''BUTTON 5'']"

text \<open>The test \<open>/^[0-9]+$/.test(key)\<close>: one or more characters, all of them decimal
  digits.\<close>

definition all_digits :: "string \<Rightarrow> bool" where
  "all_digits k \<longleftrightarrow> k \<noteq> [] \<and> list_all isdigit k"

definition isValidTypingKey :: "string \<Rightarrow> bool" where
  "isValidTypingKey k =
     (let isModifier = k \<in> set modifierKeys;
          isFunction = k \<in> set functionKeys;
          isArrow = k \<in> set arrowKeys;
          isMouse = (k \<in> set mouseKeys
                     \<or> (str_includes k ''MOUSE'' \<or> str_includes k ''BUTTON''
                         \<or> str_includes k ''CLICK'' \<or> str_includes k ''SCROLL''))
      in if all_digits k then False
         else \<not> isModifier \<and> \<not> isFunction \<and> \<not> isArrow \<and> \<not> isMouse)"

text \<open>
  The argument of \<open>handleKeyPress\<close>.  The listener passes \<open>{ name }\<close>, where \<open>name\<close> is
  either a string or an object from key names to their pressed state, listed here in the
  order of \<open>Object.entries\<close>; an entry that is not \<open>true\<close> is \<open>False\<close>.
\<close>

datatype js_name = NameString string | NameObject "(string \<times> bool) list" | NameOther

datatype key_event = NotAnObject | KeyEvent js_name

text \<open>What \<open>getTypingKey\<close> returns: \<open>false\<close>, \<open>null\<close> or the key.\<close>

datatype typing_key_result = ResultFalse | ResultNull | ResultKey string

text \<open>The key that \<open>getTypingKey\<close> settles on before it filters it; \<open>None\<close> where it
  returns \<open>false\<close> at once.\<close>

fun pressed_key :: "js_name \<Rightarrow> string option" where
  "pressed_key (NameString s) = Some s"
| "pressed_key (NameObject entries) =
     (let pressedKeys = map fst (filter snd entries) in
      if length pressedKeys = 1 then Some (hd pressedKeys)
      else if length pressedKeys > 1 then
        (let nonModifierKeys = filter (\<lambda>k. \<not> isModifierKey k) pressedKeys in
         if length nonModifierKeys = 1 then Some (hd nonModifierKeys) else None)
      else None)"
| "pressed_key NameOther = None"

fun getTypingKey :: "key_event \<Rightarrow> typing_key_result" where
  "getTypingKey NotAnObject = ResultFalse"
| "getTypingKey (KeyEvent nameObj) =
     (case pressed_key nameObj of
        None \<Rightarrow> ResultFalse
      | Some k \<Rightarrow>
          if k = [] then ResultFalse
          else if \<not> isValidTypingKey k then ResultNull
          else ResultKey k)"

text \<open>\<open>handleKeyPress\<close>; \<open>now\<close>, \<open>now'\<close> and \<open>now''\<close> are the readings of the clock in
  \<open>handleKeyPress\<close>, \<open>calculateAndEmitWPM\<close> and \<open>cleanOldKeystrokes\<close>.\<close>

definition handleKeyPress ::
  "key_event \<Rightarrow> int \<Rightarrow> int \<Rightarrow> int \<Rightarrow> KeyboardMonitor \<Rightarrow> KeyboardMonitor" where
  "handleKeyPress keyEvent now now' now'' st =
     (case getTypingKey keyEvent of
        ResultKey typingKeyResult \<Rightarrow>
          (let st1 = st\<lparr>keystrokes := keystrokes st @ [\<lparr>timestamp = now, key = typingKeyResult\<rparr>],
                        session_totalKeystrokes := session_totalKeystrokes st + 1,
                        lastKeystrokeTime := now\<rparr>;
               st2 = (if \<not> typingActive st1 then st1\<lparr>typingActive := True\<rparr> else st1);
               st3 = (if startTime st2 = None \<or> startTime st2 = Some 0
                      then st2\<lparr>startTime := Some now\<rparr> else st2)
           in cleanOldKeystrokes now'' (calculateAndEmitWPM now' st3))
      | _ \<Rightarrow> st)"

text \<open>\<open>resetSession\<close>, which \<open>startMonitoring\<close> runs: the state a session starts from.\<close>

definition resetSession :: "KeyboardMonitor \<Rightarrow> KeyboardMonitor" where
  "resetSession st =
     st\<lparr>startTime := None, session_totalKeystrokes := 0, currentWPM := 0,
        lastKeystrokeTime := 0, keystrokes := [], typingActive := False,
        previousWPM := Some 0\<rparr>"

section \<open>Host side: the connection supervisor (ESP32SerialManager)\<close>

text \<open>
  The fields of an \<open>ESP32SerialManager\<close> that connecting, failing and reconnecting touch.
  The timers that \<open>setTimeout\<close> has armed for a reconnect and that have neither fired nor
  been cleared are \<open>timers\<close>, oldest first (all have the same delay); \<open>reconnectTimer\<close> is
  the handle of the last one armed.  The \<open>connection-change\<close> events are collected in
  \<open>changes\<close>.  What the serial port library does when asked to open a port is an input,
  \<open>open_outcome\<close>: the port opens, or it reports an \<open>error\<close> event (which reaches the
  listener of \<open>setupEventHandlers\<close> first and the rejecting listener of \<open>connectToDevice\<close>
  second, in the order they were added), or the constructor throws.  The waits inside
  \<open>connectToDevice\<close> are not interleaved with other events.
\<close>

datatype connection_change = Connected "string option" | Disconnected | ConnectionLost

datatype open_outcome = Opened | OpenError | ConstructorThrows

record ESP32SerialManager =
  isConnected :: bool
  currentPortPath :: "string option"
  reconnectAttempts :: nat
  reconnectTimer :: "nat option"
  timers :: "nat list"
  armed :: nat
  changes :: "connection_change list"

definition maxReconnectAttempts :: nat where
  "maxReconnectAttempts = 3"

text \<open>The state the constructor leaves.\<close>

definition new_manager :: ESP32SerialManager where
  "new_manager =
     \<lparr>isConnected = False, currentPortPath = None, reconnectAttempts = 0,
      reconnectTimer = None, timers = [], armed = 0, changes = []\<rparr>"

text \<open>A path is truthy when it is a string that is not empty.\<close>

definition truthy :: "string option \<Rightarrow> bool" where
  "truthy p \<longleftrightarrow> (case p of None \<Rightarrow> False | Some s \<Rightarrow> s \<noteq> [])"

text \<open>\<open>handleConnectionError\<close>.  \<open>armed\<close> counts the calls of \<open>setTimeout\<close> it has made, and
  names the timer it arms.\<close>

definition handleConnectionError :: "ESP32SerialManager \<Rightarrow> ESP32SerialManager" where
  "handleConnectionError st0 =
     (let st = st0\<lparr>isConnected := False, changes := changes st0 @ [ConnectionLost]\<rparr> in
      if reconnectAttempts st < maxReconnectAttempts \<and> truthy (currentPortPath st)
      then st\<lparr>reconnectAttempts := reconnectAttempts st + 1,
              reconnectTimer := Some (armed st),
              timers := timers st @ [armed st],
              armed := armed st + 1\<rparr>
      else st)"

definition cleanup :: "ESP32SerialManager \<Rightarrow> ESP32SerialManager" where
  "cleanup st = st\<lparr>isConnected := False, currentPortPath := None\<rparr>"

definition disconnect :: "ESP32SerialManager \<Rightarrow> ESP32SerialManager" where
  "disconnect st0 =
     (let st = (case reconnectTimer st0 of
                  None \<Rightarrow> st0
                | Some i \<Rightarrow> st0\<lparr>timers := removeAll i (timers st0), reconnectTimer := None\<rparr>);
          st1 = cleanup st
      in st1\<lparr>changes := changes st1 @ [Disconnected]\<rparr>)"

text \<open>\<open>connectToDevice\<close>; the result says whether it returned (\<open>True\<close>) or threw.\<close>

definition connectToDevice ::
  "string option \<Rightarrow> open_outcome \<Rightarrow> ESP32SerialManager \<Rightarrow> bool \<times> ESP32SerialManager" where
  "connectToDevice portPath outcome st0 =
     (let st = (if isConnected st0 then disconnect st0 else st0) in
      case outcome of
        ConstructorThrows \<Rightarrow> (False, cleanup st)
      | OpenError \<Rightarrow> (False, cleanup (handleConnectionError st))
      | Opened \<Rightarrow>
          (True, st\<lparr>currentPortPath := portPath, isConnected := True, reconnectAttempts := 0,
                    changes := changes st @ [Connected portPath]\<rparr>))"

text \<open>The callback that \<open>handleConnectionError\<close> arms: \<open>connectToDevice\<close> on the path
  held when the timer fires, its failure logged and dropped.\<close>

definition reconnect_callback :: "open_outcome \<Rightarrow> ESP32SerialManager \<Rightarrow> ESP32SerialManager" where
  "reconnect_callback outcome st = snd (connectToDevice (currentPortPath st) outcome st)"

text \<open>What can happen to a manager: a caller asks to connect, the port reports an error,
  the port closes, or the oldest armed timer fires.\<close>

datatype supervisor_event =
    ExplicitConnect string open_outcome
  | PortError
  | PortClose
  | TimerFires open_outcome

fun supervisor_step :: "ESP32SerialManager \<Rightarrow> supervisor_event \<Rightarrow> ESP32SerialManager" where
  "supervisor_step st (ExplicitConnect portPath outcome) =
     snd (connectToDevice (Some portPath) outcome st)"
| "supervisor_step st PortError = handleConnectionError st"
| "supervisor_step st PortClose = (if isConnected st then handleConnectionError st else st)"
| "supervisor_step st (TimerFires outcome) =
     (case timers st of
        [] \<Rightarrow> st
      | i # rest \<Rightarrow> reconnect_callback outcome (st\<lparr>timers := rest\<rparr>))"

definition supervisor_run ::
  "supervisor_event list \<Rightarrow> ESP32SerialManager \<Rightarrow> ESP32SerialManager" where
  "supervisor_run evs st = foldl supervisor_step st evs"

text \<open>An event that is an explicit connect request, and one whose open succeeds.\<close>

fun explicit_connect :: "supervisor_event \<Rightarrow> bool" where
  "explicit_connect (ExplicitConnect _ _) = True"
| "explicit_connect _ = False"

fun opens :: "supervisor_event \<Rightarrow> bool" where
  "opens (ExplicitConnect _ outcome) \<longleftrightarrow> outcome = Opened"
| "opens (TimerFires outcome) \<longleftrightarrow> outcome = Opened"
| "opens _ \<longleftrightarrow> False"

section \<open>The specification's reading of two computations\<close>

text \<open>The raw WPM as the specification words it: the number of events in the subset over
  five, divided by the minutes from the oldest to the newest event of the subset.\<close>

definition spec_rawWPM :: "keystroke list \<Rightarrow> rat" where
  "spec_rawWPM recent =
     (of_nat (length recent) / 5)
       / (of_int (timestamp (last recent) - timestamp (hd recent)) / 60000)"

section \<open>Concrete states used as examples\<close>

text \<open>A device after \<open>setup\<close>: the manager as \<open>sprite_manager_init\<close> leaves it, the factory
  settings with their checksum in memory, and an erased EEPROM.\<close>

definition factory_image :: BongoCatSettings where
  "factory_image = [1, 1, 1, 1, 1, 0, 0, 0, 5, 0, 0, 0, 0, 0, 0x80, 0x3F, 201, 0, 0, 0]"

definition example_device :: device where
  "example_device =
     \<lparr>manager = sprite_manager_init 100 100 100 5000 20000,
      python_control_mode = True,
      last_command_time = 0,
      settings = factory_image,
      eeprom = replicate 20 0xFF\<rparr>"

text \<open>A monitor in an active session after a burst of eight keystrokes that spans exactly
  one second, with no smoothed value yet; and one after three keystrokes.\<close>

definition burst_monitor :: KeyboardMonitor where
  "burst_monitor =
     \<lparr>keystrokes = map (\<lambda>t. \<lparr>timestamp = t, key = ''A''\<rparr>)
                      [1000, 1100, 1200, 1300, 1400, 1500, 1600, 2000],
      startTime = Some 1000, session_totalKeystrokes = 8, currentWPM = 0,
      lastKeystrokeTime = 2000, typingActive = True, previousWPM = Some 0, emitted = []\<rparr>"


text \<open>A manager after an explicit connect request whose port opened.\<close>

definition connected_manager :: ESP32SerialManager where
  "connected_manager = supervisor_step new_manager (ExplicitConnect ''COM3'' Opened)"

section \<open>Properties of the Animation Director\<close>

subsection \<open>Entering a typing intensity\<close>

lemma typing_intensity_cases:
  "typing_intensity s \<longleftrightarrow>
     s = ANIM_STATE_TYPING_SLOW \<or> s = ANIM_STATE_TYPING_NORMAL \<or>
     s = ANIM_STATE_TYPING_FAST \<or> s = ANIM_STATE_TYPING_STREAK"
  by (auto simp: typing_intensity_def records_typing_def)

text \<open>
  Claim C8.  Whatever the manager held before (an idle stage, another typing intensity,
  or the same state again), \<open>sprite_manager_set_state\<close> into slow, normal, fast or the
  legacy streak state returns a manager whose paw frame is 0 and whose paws layer is the
  left-paw-down sprite; the state entered is the requested one.
\<close>

theorem set_state_typing_resets_paws:
  assumes "typing_intensity new_state"
  shows "paw_frame (sprite_manager_set_state m new_state current_time) = 0
       \<and> current_sprites (sprite_manager_set_state m new_state current_time) LAYER_PAWS
           = Some leftpawdown
       \<and> current_state (sprite_manager_set_state m new_state current_time) = new_state"
  using assms
  by (auto simp: typing_intensity_cases sprite_manager_set_state_def records_typing_def
      set_sprite_def Let_def)

text \<open>The same at a concrete manager: fast typing entered from the initial idle stage.\<close>

theorem set_state_typing_resets_paws_witness:
  "typing_intensity ANIM_STATE_TYPING_FAST
   \<and> paw_frame (sprite_manager_set_state (sprite_manager_init 0 0 0 3000 10000)
        ANIM_STATE_TYPING_FAST 1000) = 0
   \<and> current_sprites (sprite_manager_set_state (sprite_manager_init 0 0 0 3000 10000)
        ANIM_STATE_TYPING_FAST 1000) LAYER_PAWS = Some leftpawdown
   \<and> current_state (sprite_manager_set_state (sprite_manager_init 0 0 0 3000 10000)
        ANIM_STATE_TYPING_FAST 1000) = ANIM_STATE_TYPING_FAST"
  using set_state_typing_resets_paws [of ANIM_STATE_TYPING_FAST
      "sprite_manager_init 0 0 0 3000 10000" 1000]
  by (simp add: typing_intensity_def records_typing_def)

subsection \<open>The SPEED directive\<close>

lemma toInt_200: "toInt ''200'' = 200"
  by (simp add: toInt_def isspace_def isdigit_def digits_value_def)

lemma toInt_0: "toInt ''0'' = 0"
  by (simp add: toInt_def isspace_def isdigit_def digits_value_def)

text \<open>A speed that is not zero selects the typing intensity by the two thresholds.\<close>

lemma handle_speed_nonzero:
  assumes "(word_of_int (toInt speed_str) :: 16 word) = speed" and "speed \<noteq> 0"
  shows "current_state (manager (handle_speed speed_str current_time d))
           = (if speed < 80 then ANIM_STATE_TYPING_SLOW
              else if speed < 150 then ANIM_STATE_TYPING_NORMAL
              else ANIM_STATE_TYPING_FAST)"
  using assms
  by (auto simp: handle_speed_def Let_def sprite_manager_set_state_def records_typing_def
      set_sprite_def)

text \<open>A speed of zero enters idle stage 1 and then re-enters the state the manager was in
  when the command arrived, so the state after the command is the state before it.\<close>

lemma handle_speed_zero:
  assumes "(word_of_int (toInt speed_str) :: 16 word) = 0"
  shows "current_state (manager (handle_speed speed_str current_time d))
           = current_state (manager d)"
  using assms
  by (cases "current_state (manager d)")
     (auto simp: handle_speed_def Let_def sprite_manager_set_state_def records_typing_def
      set_sprite_def)

text \<open>
  Claim C2, at the input where the code departs from it.  The device is typing fast after
  \<open>SPEED:200\<close>; the directive \<open>SPEED:0\<close> then leaves it in the fast typing state with the
  paw animation active, not in idle stage 1.
\<close>

theorem speed_zero_keeps_typing_state:
  "current_state (manager (handleSerialCommands (\<lambda>_. 0) ''SPEED:200'' 1000 example_device))
     = ANIM_STATE_TYPING_FAST
   \<and> current_state (manager (handleSerialCommands (\<lambda>_. 0) ''SPEED:0'' 1500
        (handleSerialCommands (\<lambda>_. 0) ''SPEED:200'' 1000 example_device)))
     = ANIM_STATE_TYPING_FAST
   \<and> paw_animation_active (manager (handleSerialCommands (\<lambda>_. 0) ''SPEED:0'' 1500
        (handleSerialCommands (\<lambda>_. 0) ''SPEED:200'' 1000 example_device)))"
  by (simp add: handleSerialCommands_def startsWith_def handle_speed_def toInt_200 toInt_0
      Let_def example_device_def sprite_manager_init_def sprite_manager_set_state_def
      records_typing_def set_sprite_def)

subsection \<open>The typing timeout of the tick\<close>

text \<open>After any \<open>sprite_manager_set_state\<close>, an active paw animation excludes deep sleep.\<close>

lemma set_state_paws_outside_idle:
  "paw_animation_active (sprite_manager_set_state m s t) \<Longrightarrow>
     current_state (sprite_manager_set_state m s t) \<noteq> ANIM_STATE_IDLE_STAGE4"
  by (cases s) (auto simp: sprite_manager_set_state_def records_typing_def set_sprite_def Let_def)










section \<open>Properties of the persisted settings\<close>

subsection \<open>The checksum as a sum of bytes\<close>







subsection \<open>Little-endian words in the image\<close>







subsection \<open>A changed byte\<close>




subsection \<open>Writing a word and reading it back\<close>




lemma length_put_le32 [simp]: "length (put_le32 off w img) = length img"
  by (simp add: put_le32_def)





subsection \<open>Resetting and loading\<close>














section \<open>Properties of the sleep-stage timing\<close>

text \<open>
  Claim C7.  For a sleep timeout of 1 to 60 minutes the three durations add up, without
  wrapping, to the timeout in milliseconds; stage 2 lies between 5000 and 60000 and stage 3
  between 3000 and 30000; stage 1 is the total less the other two.
\<close>

theorem sleep_stages_sum_to_timeout:
  assumes "1 \<le> timeout_minutes" and "timeout_minutes \<le> 60"
  shows "case calculateSleepStageTiming timeout_minutes of (stage1_ms, stage2_ms, stage3_ms) \<Rightarrow>
           unat stage1_ms + unat stage2_ms + unat stage3_ms = nat timeout_minutes * 60 * 1000
           \<and> 5000 \<le> stage2_ms \<and> stage2_ms \<le> 60000
           \<and> 3000 \<le> stage3_ms \<and> stage3_ms \<le> 30000
           \<and> stage1_ms = word_of_int timeout_minutes * 60 * 1000 - stage2_ms - stage3_ms"
proof -
  from assms have "timeout_minutes \<in> set [1..60]" by simp
  then show ?thesis
    by (simp add: upto.simps, elim disjE;
        simp add: calculateSleepStageTiming_def scaled_def)
qed

text \<open>The same at the default timeout of five minutes.\<close>

theorem sleep_stages_sum_to_timeout_witness:
  "(1 :: int) \<le> 5 \<and> (5 :: int) \<le> 60
   \<and> (case calculateSleepStageTiming 5 of (stage1_ms, stage2_ms, stage3_ms) \<Rightarrow>
           unat stage1_ms + unat stage2_ms + unat stage3_ms = nat 5 * 60 * 1000
           \<and> 5000 \<le> stage2_ms \<and> stage2_ms \<le> 60000
           \<and> 3000 \<le> stage3_ms \<and> stage3_ms \<le> 30000
           \<and> stage1_ms = word_of_int 5 * 60 * 1000 - stage2_ms - stage3_ms)"
  using sleep_stages_sum_to_timeout [of 5] by simp

section \<open>Properties of the keyboard monitor\<close>

subsection \<open>Rounding\<close>

lemma Math_round_eq:
  assumes "of_int n \<le> x + 1 / 2" and "x + 1 / 2 < of_int n + 1"
  shows "Math_round x = of_int n"
  using assms by (simp add: Math_round_def floor_eq_iff)

lemma Math_round_640: "Math_round 640 = 640"
  using Math_round_eq [of 640 640] by simp

lemma Math_round_960: "Math_round 960 = 960"
  using Math_round_eq [of 960 960] by simp



subsection \<open>The raw value\<close>

lemma burst_recent:
  "slice_last 8 (keystrokes (cleanOldKeystrokes 2500 burst_monitor)) = keystrokes burst_monitor"
  "slice_last 8 (keystrokes (cleanOldKeystrokes 2000 burst_monitor)) = keystrokes burst_monitor"
  by (simp_all add: cleanOldKeystrokes_def maxKeystrokeAge_def slice_last_def burst_monitor_def)

text \<open>The raw value is the number of events used over five, divided by the minutes from
  the oldest of them to \<open>currentTime\<close>.\<close>

lemma rawWPM_formula:
  "rawWPM currentTime recent
     = (of_nat (length recent) / 5) / (of_int (currentTime - timestamp (hd recent)) / 60000)"
  by (simp add: rawWPM_def Let_def)

text \<open>It is the specification's value when the call is made at the time of the newest
  event, and then the burst gives 96.\<close>

lemma rawWPM_at_newest:
  assumes "currentTime = timestamp (last recent)"
  shows "rawWPM currentTime recent = spec_rawWPM recent"
  using assms by (simp add: rawWPM_def spec_rawWPM_def Let_def)

lemma burst_at_last_keystroke: "fst (calculateWPM 2000 burst_monitor) = 96"
proof -
  have raw: "rawWPM 2000 (keystrokes burst_monitor) = 96"
    by (simp add: rawWPM_def burst_monitor_def Let_def)
  show ?thesis
    by (simp add: calculateWPM_def Let_def burst_recent raw smoothedWPM_def Math_round_960)
       (simp add: cleanOldKeystrokes_def maxKeystrokeAge_def burst_monitor_def)
qed

text \<open>
  Claim C1, at an input where the code departs from it.  The eight keystrokes of the burst
  span 1000 ms from the oldest to the newest, for which the claim's formula gives 96.  A
  call at 2500 ms, half a second after the last keystroke and before the idle timeout,
  passes the guards and measures the elapsed time up to \<open>currentTime\<close>: its raw value, and
  with no previous smoothed value its result, is 64.
\<close>

theorem rawWPM_measures_to_now:
  "passes_guards 2500 burst_monitor
   \<and> length (keystrokes burst_monitor) = 8
   \<and> timestamp (last (keystrokes burst_monitor)) - timestamp (hd (keystrokes burst_monitor)) = 1000
   \<and> spec_rawWPM (keystrokes burst_monitor) = 96
   \<and> rawWPM 2500 (slice_last 8 (keystrokes (cleanOldKeystrokes 2500 burst_monitor))) = 64
   \<and> fst (calculateWPM 2500 burst_monitor) = 64"
proof -
  have raw: "rawWPM 2500 (keystrokes burst_monitor) = 64"
    by (simp add: rawWPM_def burst_monitor_def Let_def)
  have "fst (calculateWPM 2500 burst_monitor) = 64"
    by (simp add: calculateWPM_def Let_def burst_recent raw smoothedWPM_def Math_round_640)
       (simp add: cleanOldKeystrokes_def maxKeystrokeAge_def burst_monitor_def)
  moreover have "passes_guards 2500 burst_monitor"
    by (simp add: passes_guards_def burst_recent)
       (simp add: cleanOldKeystrokes_def maxKeystrokeAge_def burst_monitor_def)
  ultimately show ?thesis
    using raw by (simp add: burst_recent) (simp add: spec_rawWPM_def burst_monitor_def)
qed

subsection \<open>The cached value\<close>









subsection \<open>The idle timeout\<close>

lemma calculateAndEmitWPM_idle:
  assumes "\<not> typingActive st"
  shows "\<not> typingActive (calculateAndEmitWPM now st)"
    and "currentWPM (calculateAndEmitWPM now st) = 0"
    and "emitted (calculateAndEmitWPM now st) \<noteq> []"
    and "wpm (last (emitted (calculateAndEmitWPM now st))) = 0"
    and "\<not> isActive (last (emitted (calculateAndEmitWPM now st)))"
    and "keystrokes (calculateAndEmitWPM now st) = keystrokes st"
  using assms by (simp_all add: calculateAndEmitWPM_def Let_def)

text \<open>
  Claim C6.  If the session is active and the last keystroke was at \<open>T\<close>, a call of
  \<open>checkIdleTimeout\<close> at any time after \<open>T + 1000\<close> returns with the active flag off and
  the current WPM 0, and has emitted one typing-stats event that carries WPM 0 and
  inactive; no later tick is needed.
\<close>

theorem idle_timeout_forces_idle:
  assumes "typingActive st" and "lastKeystrokeTime st = T" and "now > T + 1000"
  shows "\<not> typingActive (checkIdleTimeout now now' st)
       \<and> currentWPM (checkIdleTimeout now now' st) = 0
       \<and> wpm (last (emitted (checkIdleTimeout now now' st))) = 0
       \<and> \<not> isActive (last (emitted (checkIdleTimeout now now' st)))
       \<and> length (emitted (checkIdleTimeout now now' st)) = length (emitted st) + 1"
  using assms
  by (simp add: checkIdleTimeout_def idleTimeout_def Let_def calculateAndEmitWPM_def)

text \<open>The same for the burst, last keystroke at 2000 ms, checked at 3001 ms.\<close>

theorem idle_timeout_forces_idle_witness:
  "typingActive burst_monitor \<and> lastKeystrokeTime burst_monitor = 2000 \<and> (3001 :: int) > 2000 + 1000
   \<and> \<not> typingActive (checkIdleTimeout 3001 3001 burst_monitor)
   \<and> currentWPM (checkIdleTimeout 3001 3001 burst_monitor) = 0
   \<and> wpm (last (emitted (checkIdleTimeout 3001 3001 burst_monitor))) = 0
   \<and> \<not> isActive (last (emitted (checkIdleTimeout 3001 3001 burst_monitor)))
   \<and> length (emitted (checkIdleTimeout 3001 3001 burst_monitor)) = length (emitted burst_monitor) + 1"
  using idle_timeout_forces_idle [of burst_monitor 2000 3001 3001]
  by (simp add: burst_monitor_def)

subsection \<open>Digit keys\<close>

lemma digit_isdigit: "c \<in> set ''0123456789'' \<Longrightarrow> isdigit c"
  by (auto simp: isdigit_def)

lemma digits_all_digits:
  assumes "k \<noteq> []" and "set k \<subseteq> set ''0123456789''"
  shows "all_digits k"
  using assms unfolding all_digits_def list_all_iff
  by (meson digit_isdigit subsetD)

text \<open>
  Claim C9.  If the key that a key event comes down to is a non-empty string of decimal
  digits, then \<open>isValidTypingKey\<close> rejects it, \<open>getTypingKey\<close> returns \<open>null\<close>, and
  \<open>handleKeyPress\<close> returns the monitor unchanged: nothing is appended to the keystroke
  buffer, no counter moves and nothing is emitted.
\<close>

theorem digit_keys_are_not_typing_keys:
  assumes "k \<noteq> []" and "set k \<subseteq> set ''0123456789''" and "pressed_key name = Some k"
  shows "\<not> isValidTypingKey k
       \<and> getTypingKey (KeyEvent name) = ResultNull
       \<and> handleKeyPress (KeyEvent name) now now' now'' st = st"
proof -
  have "all_digits k" using assms(1,2) by (rule digits_all_digits)
  then have "\<not> isValidTypingKey k" by (simp add: isValidTypingKey_def)
  with assms(1,3) show ?thesis by (simp add: handleKeyPress_def)
qed

text \<open>The same for the key \<open>42\<close> pressed together with a shift key.\<close>

theorem digit_keys_are_not_typing_keys_witness:
  "''42'' \<noteq> [] \<and> set ''42'' \<subseteq> set ''0123456789''
   \<and> pressed_key (NameObject [(''LEFT SHIFT'', True), (''42'', True), (''A'', False)]) = Some ''42''
   \<and> \<not> isValidTypingKey ''42''
   \<and> getTypingKey (KeyEvent (NameObject [(''LEFT SHIFT'', True), (''42'', True), (''A'', False)])) = ResultNull
   \<and> handleKeyPress (KeyEvent (NameObject [(''LEFT SHIFT'', True), (''42'', True), (''A'', False)]))
        2100 2100 2100 burst_monitor = burst_monitor"
proof -
  have "pressed_key (NameObject [(''LEFT SHIFT'', True), (''42'', True), (''A'', False)]) = Some ''42''"
    by (simp add: isModifierKey_def)
  moreover have "set ''42'' \<subseteq> set ''0123456789''" by simp
  ultimately show ?thesis
    using digit_keys_are_not_typing_keys
      [of "''42''" "NameObject [(''LEFT SHIFT'', True), (''42'', True), (''A'', False)]"
          2100 2100 2100 burst_monitor]
    by simp
qed

text \<open>The filter does let a letter through.\<close>

lemma letter_is_typing_key: "isValidTypingKey ''A''"
  by (simp add: isValidTypingKey_def all_digits_def isdigit_def modifierKeys_def functionKeys_def
      arrowKeys_def mouseKeys_def)

section \<open>Properties of the connection supervisor\<close>

lemma handleConnectionError_counts:
  "int (armed (handleConnectionError st)) - int (reconnectAttempts (handleConnectionError st))
     = int (armed st) - int (reconnectAttempts st)"
  "reconnectAttempts st \<le> reconnectAttempts (handleConnectionError st)"
  "reconnectAttempts st \<le> maxReconnectAttempts
     \<Longrightarrow> reconnectAttempts (handleConnectionError st) \<le> maxReconnectAttempts"
  "maxReconnectAttempts \<le> reconnectAttempts st
     \<Longrightarrow> armed (handleConnectionError st) = armed st"
  by (simp_all add: handleConnectionError_def Let_def)

lemma disconnect_counts [simp]:
  "armed (disconnect st) = armed st"
  "reconnectAttempts (disconnect st) = reconnectAttempts st"
  by (simp_all add: disconnect_def cleanup_def Let_def split: option.splits)

lemma cleanup_counts [simp]:
  "armed (cleanup st) = armed st"
  "reconnectAttempts (cleanup st) = reconnectAttempts st"
  by (simp_all add: cleanup_def)

lemma connect_unopened_counts:
  assumes "outcome \<noteq> Opened"
  shows "int (armed (snd (connectToDevice p outcome st)))
           - int (reconnectAttempts (snd (connectToDevice p outcome st)))
         = int (armed st) - int (reconnectAttempts st)"
    and "reconnectAttempts st \<le> reconnectAttempts (snd (connectToDevice p outcome st))"
    and "reconnectAttempts st \<le> maxReconnectAttempts
     \<Longrightarrow> reconnectAttempts (snd (connectToDevice p outcome st)) \<le> maxReconnectAttempts"
    and "maxReconnectAttempts \<le> reconnectAttempts st
     \<Longrightarrow> armed (snd (connectToDevice p outcome st)) = armed st"
  using assms
    handleConnectionError_counts [of "disconnect st"] handleConnectionError_counts [of st]
  by (cases outcome; simp add: connectToDevice_def Let_def)+

lemma connect_opened_resets:
  "reconnectAttempts (snd (connectToDevice p Opened st)) = 0"
  "armed (snd (connectToDevice p Opened st)) = armed st"
  by (simp_all add: connectToDevice_def Let_def)

lemma step_unopened_counts:
  assumes "\<not> opens e"
  shows "int (armed (supervisor_step st e)) - int (reconnectAttempts (supervisor_step st e))
         = int (armed st) - int (reconnectAttempts st)"
    and "reconnectAttempts st \<le> reconnectAttempts (supervisor_step st e)"
    and "reconnectAttempts st \<le> maxReconnectAttempts
     \<Longrightarrow> reconnectAttempts (supervisor_step st e) \<le> maxReconnectAttempts"
    and "maxReconnectAttempts \<le> reconnectAttempts st
     \<Longrightarrow> armed (supervisor_step st e) = armed st"
proof -
  have t: "armed (st\<lparr>timers := r\<rparr>) = armed st"
    "reconnectAttempts (st\<lparr>timers := r\<rparr>) = reconnectAttempts st" for r
    by simp_all
  show "int (armed (supervisor_step st e)) - int (reconnectAttempts (supervisor_step st e))
         = int (armed st) - int (reconnectAttempts st)"
    using assms handleConnectionError_counts(1) [of st]
      connect_unopened_counts(1)
    by (cases e) (auto simp: reconnect_callback_def t split: list.splits)
  show "reconnectAttempts st \<le> reconnectAttempts (supervisor_step st e)"
    using assms handleConnectionError_counts(2) [of st]
      connect_unopened_counts(2)
    by (cases e) (auto simp: reconnect_callback_def split: list.splits intro: order_trans [OF _ connect_unopened_counts(2)])
  show "reconnectAttempts st \<le> maxReconnectAttempts
     \<Longrightarrow> reconnectAttempts (supervisor_step st e) \<le> maxReconnectAttempts"
    using assms handleConnectionError_counts(3) [of st]
      connect_unopened_counts(3)
    by (cases e) (auto simp: reconnect_callback_def split: list.splits)
  show "maxReconnectAttempts \<le> reconnectAttempts st
     \<Longrightarrow> armed (supervisor_step st e) = armed st"
    using assms handleConnectionError_counts(4) [of st]
      connect_unopened_counts(4)
    by (cases e) (auto simp: reconnect_callback_def split: list.splits)
qed


lemma run_unopened_counts:
  assumes "\<forall>e \<in> set evs. \<not> opens e" and "reconnectAttempts st \<le> maxReconnectAttempts"
  shows "int (armed (supervisor_run evs st)) - int (reconnectAttempts (supervisor_run evs st))
           = int (armed st) - int (reconnectAttempts st)
       \<and> reconnectAttempts (supervisor_run evs st) \<le> maxReconnectAttempts
       \<and> reconnectAttempts st \<le> reconnectAttempts (supervisor_run evs st)"
  using assms
proof (induction evs arbitrary: st)
  case Nil
  then show ?case by (simp add: supervisor_run_def)
next
  case (Cons e evs)
  have e: "\<not> opens e" using Cons.prems(1) by simp
  have rest: "\<forall>e \<in> set evs. \<not> opens e" using Cons.prems(1) by simp
  note s = step_unopened_counts [OF e, of st]
  have ih: "int (armed (supervisor_run evs (supervisor_step st e)))
              - int (reconnectAttempts (supervisor_run evs (supervisor_step st e)))
           = int (armed (supervisor_step st e)) - int (reconnectAttempts (supervisor_step st e))
       \<and> reconnectAttempts (supervisor_run evs (supervisor_step st e)) \<le> maxReconnectAttempts
       \<and> reconnectAttempts (supervisor_step st e)
            \<le> reconnectAttempts (supervisor_run evs (supervisor_step st e))"
    using Cons.IH [OF rest s(3) [OF Cons.prems(2)]] .
  have unf: "supervisor_run (e # evs) st = supervisor_run evs (supervisor_step st e)"
    by (simp add: supervisor_run_def)
  show ?case unfolding unf using ih s(1) s(2) by linarith
qed

text \<open>
  Claim C3, as the code has it.  The attempt counter is set to zero by every
  \<open>connectToDevice\<close> whose port opens, whether a caller made the request or the reconnect
  timer did; no other event lowers it.  Over any run of events in which no port opens, at
  most three reconnects are armed less those already counted, and once the counter stands
  at three no event arms another until a port opens.
\<close>

theorem reconnects_bounded_until_open:
  assumes "\<forall>e \<in> set evs. \<not> opens e" and "reconnectAttempts st \<le> maxReconnectAttempts"
  shows "armed (supervisor_run evs st) \<le> armed st + (maxReconnectAttempts - reconnectAttempts st)
       \<and> (reconnectAttempts (supervisor_run evs st) = maxReconnectAttempts \<longrightarrow>
            (\<forall>e. \<not> opens e \<longrightarrow>
               armed (supervisor_step (supervisor_run evs st) e) = armed (supervisor_run evs st)))
       \<and> (\<forall>e. \<not> opens e \<longrightarrow>
              reconnectAttempts (supervisor_run evs st)
                \<le> reconnectAttempts (supervisor_step (supervisor_run evs st) e))
       \<and> reconnectAttempts
            (supervisor_step (supervisor_run evs st) (ExplicitConnect portPath Opened)) = 0
       \<and> (timers (supervisor_run evs st) \<noteq> [] \<longrightarrow>
            reconnectAttempts (supervisor_step (supervisor_run evs st) (TimerFires Opened)) = 0)"
proof -
  let ?st = "supervisor_run evs st"
  note r = run_unopened_counts [OF assms]
  have a: "armed ?st \<le> armed st + (maxReconnectAttempts - reconnectAttempts st)"
    using r assms(2) by linarith
  have b: "armed (supervisor_step ?st e) = armed ?st"
    if "reconnectAttempts ?st = maxReconnectAttempts" "\<not> opens e" for e
    using step_unopened_counts(4) [OF that(2), of ?st] that(1) by simp
  have c: "reconnectAttempts ?st \<le> reconnectAttempts (supervisor_step ?st e)"
    if "\<not> opens e" for e
    using that by (rule step_unopened_counts(2))
  have d: "reconnectAttempts (supervisor_step ?st (ExplicitConnect portPath Opened)) = 0"
    by (simp add: connect_opened_resets)
  have e: "reconnectAttempts (supervisor_step ?st (TimerFires Opened)) = 0"
    if "timers ?st \<noteq> []"
    using that by (simp add: reconnect_callback_def connect_opened_resets split: list.splits)
  from a b c d e show ?thesis by blast
qed

lemma connected_manager_eq:
  "connected_manager =
     \<lparr>isConnected = True, currentPortPath = Some ''COM3'', reconnectAttempts = 0,
      reconnectTimer = None, timers = [], armed = 0, changes = [Connected (Some ''COM3'')]\<rparr>"
  by (simp add: connected_manager_def new_manager_def connectToDevice_def)

text \<open>The same for a connected manager whose port reports four errors in a row: three
  reconnects are armed, the fourth error arms none, and a reconnect that opens the port
  resets the counter.\<close>

theorem reconnects_bounded_until_open_witness:
  "\<not> opens PortError
   \<and> reconnectAttempts connected_manager \<le> maxReconnectAttempts
   \<and> armed (supervisor_run [PortError, PortError, PortError, PortError] connected_manager) = 3
   \<and> reconnectAttempts
        (supervisor_run [PortError, PortError, PortError, PortError] connected_manager) = 3
   \<and> armed (supervisor_step
        (supervisor_run [PortError, PortError, PortError, PortError] connected_manager) PortError)
       = 3
   \<and> reconnectAttempts (supervisor_step
        (supervisor_run [PortError, PortError, PortError, PortError] connected_manager)
        (TimerFires Opened)) = 0"
proof -
  have h: "(\<forall>e \<in> set [PortError, PortError, PortError, PortError]. \<not> opens e)"
    "reconnectAttempts connected_manager \<le> maxReconnectAttempts"
    by (simp_all add: connected_manager_eq)
  have v: "armed (supervisor_run [PortError, PortError, PortError, PortError] connected_manager) = 3"
    "reconnectAttempts
        (supervisor_run [PortError, PortError, PortError, PortError] connected_manager) = 3"
    "timers (supervisor_run [PortError, PortError, PortError, PortError] connected_manager) \<noteq> []"
    by (simp_all add: supervisor_run_def connected_manager_eq handleConnectionError_def
        maxReconnectAttempts_def truthy_def Let_def)
  have mx: "reconnectAttempts
        (supervisor_run [PortError, PortError, PortError, PortError] connected_manager)
      = maxReconnectAttempts"
    by (simp only: v maxReconnectAttempts_def)
  have np: "\<not> opens PortError" by simp
  note t = reconnects_bounded_until_open [OF h, of "''COM3''"]
  have b: "armed (supervisor_step
        (supervisor_run [PortError, PortError, PortError, PortError] connected_manager) PortError)
       = armed (supervisor_run [PortError, PortError, PortError, PortError] connected_manager)"
    using t mx np by blast
  have e: "reconnectAttempts (supervisor_step
        (supervisor_run [PortError, PortError, PortError, PortError] connected_manager)
        (TimerFires Opened)) = 0"
    using t v(3) by blast
  from np h(2) v(1,2) b e show ?thesis by simp
qed

text \<open>
  Claim C3 as stated fails.  After one error the counter is 1; the automatic reconnect
  that then opens the port sets it back to 0 with no explicit connect request.  Three such
  failures, each followed by an automatic reconnect that opens, have armed three
  reconnects; the fourth failure arms a fourth, still with no explicit connect request.
\<close>

theorem reconnect_reset_counterexample:
  "reconnectAttempts (supervisor_run [PortError] connected_manager) = 1
   \<and> reconnectAttempts (supervisor_run [PortError, TimerFires Opened] connected_manager) = 0
   \<and> \<not> explicit_connect PortError \<and> \<not> explicit_connect (TimerFires Opened)
   \<and> armed (supervisor_run
        [PortError, TimerFires Opened, PortError, TimerFires Opened,
         PortError, TimerFires Opened] connected_manager) = 3
   \<and> armed (supervisor_run
        [PortError, TimerFires Opened, PortError, TimerFires Opened,
         PortError, TimerFires Opened, PortError] connected_manager) = 4"
  by (simp add: supervisor_run_def connected_manager_eq handleConnectionError_def
      maxReconnectAttempts_def truthy_def Let_def reconnect_callback_def connectToDevice_def)

end
